theory Spec2Isabelle
  imports Complex_Main "HOL-Library.AList" "HOL-Library.Multiset"
begin

section \<open>Conventions of the embedding\<close>

text \<open>
  The development follows three modules of the news-sentiment trader:
  \<^verbatim>\<open>sentiment_aggregator.py\<close>, \<^verbatim>\<open>signal_generator.py\<close> and \<^verbatim>\<open>portfolio.py\<close>,
  with the constants they read from \<^verbatim>\<open>config.py\<close>.

  \<^item> A Python \<^verbatim>\<open>float\<close> is a \<^typ>\<open>real\<close>: arithmetic is exact, there is no rounding,
    no infinity and no NaN. Python's unbounded \<^verbatim>\<open>int\<close> is \<^typ>\<open>int\<close>.
  \<^item> A \<^verbatim>\<open>dict\<close> read with \<^verbatim>\<open>.get(key, default)\<close> is a record of optional fields
    (\<open>None\<close>: the key is absent). The \<^verbatim>\<open>positions\<close> dict, whose iteration order is
    visible in the snapshot, is an association list in insertion order:
    \<^const>\<open>AList.update\<close> overwrites in place or appends, as dict assignment does, and
    \<^const>\<open>AList.delete\<close> is \<^verbatim>\<open>pop\<close>/\<^verbatim>\<open>del\<close>.
  \<^item> The trade log (a pandas DataFrame loaded from CSV) is the list of its rows in file
    order. The two files that \<^verbatim>\<open>apply_signals_and_update_portfolio\<close> reads and writes
    are passed in and returned.
  \<^item> The price download and the clock are parameters.
  \<^item> Python names with a leading underscore lose it (\<^verbatim>\<open>_replay_trades\<close> is
    \<open>replay_trades\<close>), and the variable \<^verbatim>\<open>sym\<close> is written \<open>symb\<close>.
\<close>

section \<open>Strings\<close>

text \<open>\<^verbatim>\<open>str.upper()\<close> and \<^verbatim>\<open>str.lower()\<close> on ASCII text: only the 26 letters change.\<close>

definition ascii_lowercase :: string where
  "ascii_lowercase = ''abcdefghijklmnopqrstuvwxyz''"

definition ascii_uppercase :: string where
  "ascii_uppercase = ''ABCDEFGHIJKLMNOPQRSTUVWXYZ''"

definition char_upper :: "char \<Rightarrow> char" where
  "char_upper c =
     (case map_of (zip ascii_lowercase ascii_uppercase) c of Some u \<Rightarrow> u | None \<Rightarrow> c)"

definition char_lower :: "char \<Rightarrow> char" where
  "char_lower c =
     (case map_of (zip ascii_uppercase ascii_lowercase) c of Some l \<Rightarrow> l | None \<Rightarrow> c)"

definition str_upper :: "string \<Rightarrow> string" where
  "str_upper s = map char_upper s"

definition str_lower :: "string \<Rightarrow> string" where
  "str_lower s = map char_lower s"

section \<open>config.py\<close>

definition INITIAL_CAPITAL :: real where
  "INITIAL_CAPITAL = 100000"

definition MAX_TRADE_FRACTION :: real where
  "MAX_TRADE_FRACTION = 25 / 100"

definition SENTIMENT_THRESHOLDS_buy :: real where
  "SENTIMENT_THRESHOLDS_buy = 2 / 100"

definition SENTIMENT_THRESHOLDS_sell :: real where
  "SENTIMENT_THRESHOLDS_sell = - (2 / 100)"

section \<open>sentiment_aggregator.py\<close>


record summary =
  final_score :: real
  avg_positive :: real
  avg_negative :: real
  avg_neutral :: real
  article_count :: int
  bullish_ratio :: real
  bearish_ratio :: real
  neutral_ratio :: real
  sentiment_view :: string

text \<open>\<^verbatim>\<open>d.get(key, default)\<close> for one optional field.\<close>

definition get_or :: "'a option \<Rightarrow> 'a \<Rightarrow> 'a" where
  "get_or v d = (case v of None \<Rightarrow> d | Some x \<Rightarrow> x)"





section \<open>signal_generator.py\<close>

text \<open>
  The \<^verbatim>\<open>summary\<close> argument is a dict read with \<^verbatim>\<open>.get\<close>; the five keys the
  function reads are optional fields.
\<close>

record summary_dict =
  sd_final_score :: "real option"
  sd_article_count :: "int option"
  sd_bullish_ratio :: "real option"
  sd_bearish_ratio :: "real option"
  sd_sentiment_view :: "string option"

definition summary_as_dict :: "summary \<Rightarrow> summary_dict" where
  "summary_as_dict s =
     \<lparr>sd_final_score = Some (final_score s),
      sd_article_count = Some (article_count s),
      sd_bullish_ratio = Some (bullish_ratio s),
      sd_bearish_ratio = Some (bearish_ratio s),
      sd_sentiment_view = Some (sentiment_view s)\<rparr>"

text \<open>
  The pieces of the reason text, before formatting: each constructor stands for one
  \<^verbatim>\<open>reason_parts.append(...)\<close> and carries the values its f-string prints.
\<close>

datatype reason_part =
    NoRecentNews
  | Analyzed int string real
  | ArticleShares real real
  | PositiveTone
  | NegativeTone
  | CloseToNeutral

record trading_signal =
  ts_symbol :: string
  ts_signal :: string
  ts_confidence :: string
  ts_reason :: "reason_part list"
  ts_final_score :: real
  ts_sentiment_view :: string
  ts_article_count :: int
  ts_bullish_ratio :: real
  ts_bearish_ratio :: real

definition generate_trading_signal ::
  "string \<Rightarrow> summary_dict \<Rightarrow> real option \<Rightarrow> real option \<Rightarrow> trading_signal" where
  "generate_trading_signal symbol sm buy_thr_arg sell_thr_arg =
     (let buy_thr = get_or buy_thr_arg SENTIMENT_THRESHOLDS_buy;
          sell_thr = get_or sell_thr_arg SENTIMENT_THRESHOLDS_sell;
          fs = get_or (sd_final_score sm) 0;
          cnt = get_or (sd_article_count sm) 0;
          bull = get_or (sd_bullish_ratio sm) 0;
          bear = get_or (sd_bearish_ratio sm) 0;
          view = get_or (sd_sentiment_view sm) ''mixed/neutral'';
          (sig, conf, reason) =
            (if cnt = 0 then (''HOLD'', ''low'', [NoRecentNews])
             else
               let parts = [Analyzed cnt (str_upper view) fs, ArticleShares bull bear]
               in if fs \<ge> buy_thr then
                    (''BUY'',
                     (if fs \<ge> buy_thr + 15 / 100 then ''high'' else ''medium''),
                     parts @ [PositiveTone])
                  else if fs \<le> sell_thr then
                    (''SELL'',
                     (if fs \<le> sell_thr - 15 / 100 then ''high'' else ''medium''),
                     parts @ [NegativeTone])
                  else (''HOLD'', ''medium'', parts @ [CloseToNeutral]))
      in \<lparr>ts_symbol = symbol, ts_signal = sig, ts_confidence = conf, ts_reason = reason,
          ts_final_score = fs, ts_sentiment_view = view, ts_article_count = cnt,
          ts_bullish_ratio = bull, ts_bearish_ratio = bear\<rparr>)"

section \<open>portfolio.py\<close>

subsection \<open>Data\<close>

text \<open>
  A row of the trade log. \<open>t_timestamp\<close> is the cell after
  \<^verbatim>\<open>pd.to_datetime(..., errors="coerce")\<close>: \<open>Some t\<close> for a parsed instant, \<open>None\<close> for
  \<^verbatim>\<open>NaT\<close>, the value an unparseable cell is coerced to.
\<close>

record trade =
  t_timestamp :: "int option"
  t_symbol :: string
  t_side :: string
  t_qty :: real
  t_price :: real
  t_value :: real

record position =
  qty :: real
  avg_cost :: real

type_synonym positions = "(string \<times> position) list"

record market_position =
  mp_symbol :: string
  mp_qty :: real
  mp_avg_cost :: real
  mp_last_price :: real
  mp_market_value :: real
  mp_unrealized_pnl :: real

record snapshot =
  snap_cash :: real
  snap_equity :: real
  snap_realized_pnl :: real
  snap_unrealized_pnl :: real
  snap_positions :: "market_position list"

record hist_row =
  h_timestamp :: int
  h_equity :: real
  h_cash :: real
  h_realized_pnl :: real
  h_unrealized_pnl :: real

subsection \<open>Price lookup\<close>

text \<open>
  \<open>yf symb\<close> is the outcome of the download: \<open>Some p\<close> is the last closing price,
  \<open>None\<close> an exception or an empty frame. \<^verbatim>\<open>_get_latest_price\<close> turns the failure into
  the sentinel \<open>0\<close>.
\<close>

definition get_latest_price :: "(string \<Rightarrow> real option) \<Rightarrow> string \<Rightarrow> real" where
  "get_latest_price yf symbol = (case yf symbol of Some p \<Rightarrow> p | None \<Rightarrow> 0)"

subsection \<open>Replay\<close>

text \<open>
  \<^verbatim>\<open>trades_df.sort_values("timestamp")\<close>, as pandas computes it for one column with its
  defaults (ascending, \<^verbatim>\<open>na_position="last"\<close>): the rows with a parsed timestamp are
  sorted by it, and the \<^verbatim>\<open>NaT\<close> rows follow in their original order. pandas' default
  algorithm (\<^verbatim>\<open>kind="quicksort"\<close>) makes no promise on the order of rows with equal
  timestamps; the model keeps them in file order (\<^const>\<open>sort_key\<close> is stable).
\<close>

definition parsed_ts :: "trade \<Rightarrow> int" where
  "parsed_ts r = (case t_timestamp r of Some t \<Rightarrow> t | None \<Rightarrow> 0)"

definition sort_values :: "trade list \<Rightarrow> trade list" where
  "sort_values df =
     sort_key parsed_ts (filter (\<lambda>r. t_timestamp r \<noteq> None) df)
       @ filter (\<lambda>r. t_timestamp r = None) df"

type_synonym ledger = "real \<times> positions \<times> real"

text \<open>The body of the \<^verbatim>\<open>for _, row in trades_sorted.iterrows()\<close> loop.\<close>

definition replay_row :: "ledger \<Rightarrow> trade \<Rightarrow> ledger" where
  "replay_row st row =
     (case st of (cash, positions, realized_pnl) \<Rightarrow>
        let symb = t_symbol row;
            side = str_upper (t_side row);
            q = t_qty row;
            price = t_price row
        in if side = ''BUY'' then
             (cash - q * price,
              AList.update symb \<lparr>qty = q, avg_cost = price\<rparr> positions,
              realized_pnl)
           else if side = ''SELL'' then
             (case map_of positions symb of
                Some pos \<Rightarrow>
                  (cash + q * price,
                   AList.delete symb positions,
                   realized_pnl + (price - avg_cost pos) * q)
              | None \<Rightarrow> (cash, positions, realized_pnl))
           else (cash, positions, realized_pnl))"

definition replay_trades :: "trade list \<Rightarrow> ledger" where
  "replay_trades trades_df =
     (if trades_df = [] then (INITIAL_CAPITAL, [], 0)
      else foldl replay_row (INITIAL_CAPITAL, [], 0) (sort_values trades_df))"

subsection \<open>Snapshot\<close>

text \<open>
  The body of the \<^verbatim>\<open>for sym, pos in positions.items()\<close> loop: \<open>market_row\<close> is the
  dict appended to \<^verbatim>\<open>market_positions\<close>, computed from the fetched price with the
  fallback to the cost basis; \<open>snapshot_step\<close> adds its values to the two running sums
  and appends it.
\<close>

definition market_row :: "(string \<Rightarrow> real option) \<Rightarrow> string \<Rightarrow> position \<Rightarrow> market_position" where
  "market_row yf symb pos =
     (let fetched = get_latest_price yf symb;
          last_price = (if fetched \<le> 0 then avg_cost pos else fetched);
          market_value = qty pos * last_price;
          u_pnl = qty pos * (last_price - avg_cost pos)
      in \<lparr>mp_symbol = symb, mp_qty = qty pos, mp_avg_cost = avg_cost pos,
          mp_last_price = last_price, mp_market_value = market_value,
          mp_unrealized_pnl = u_pnl\<rparr>)"

definition snapshot_step ::
  "(string \<Rightarrow> real option) \<Rightarrow> real \<times> real \<times> market_position list \<Rightarrow> string \<times> position
     \<Rightarrow> real \<times> real \<times> market_position list" where
  "snapshot_step yf acc sp =
     (case acc of (unrealized_pnl, equity, market_positions) \<Rightarrow>
      case sp of (symb, pos) \<Rightarrow>
        let r = market_row yf symb pos
        in (unrealized_pnl + mp_unrealized_pnl r,
            equity + mp_market_value r,
            market_positions @ [r]))"

definition compute_snapshot :: "(string \<Rightarrow> real option) \<Rightarrow> trade list \<Rightarrow> snapshot" where
  "compute_snapshot yf trades_df =
     (case replay_trades trades_df of (cash, positions, realized_pnl) \<Rightarrow>
      case foldl (snapshot_step yf) (0, cash, []) positions of
        (unrealized_pnl, equity, market_positions) \<Rightarrow>
          \<lparr>snap_cash = cash, snap_equity = equity, snap_realized_pnl = realized_pnl,
           snap_unrealized_pnl = unrealized_pnl, snap_positions = market_positions\<rparr>)"

subsection \<open>Applying signals\<close>

text \<open>
  Float floor division \<^verbatim>\<open>a // b\<close> (for \<open>b \<noteq> 0\<close>; the only call has \<open>b > 0\<close>) and
  \<^verbatim>\<open>int(x)\<close>, which truncates towards zero.
\<close>

definition py_floordiv :: "real \<Rightarrow> real \<Rightarrow> real" where
  "py_floordiv a b = of_int \<lfloor>a / b\<rfloor>"

definition py_int :: "real \<Rightarrow> int" where
  "py_int x = (if x \<ge> 0 then \<lfloor>x\<rfloor> else \<lceil>x\<rceil>)"

text \<open>The variables the signal loop updates.\<close>

record apply_state =
  as_cash :: real
  as_positions :: positions
  as_realized_pnl :: real
  as_new_trades :: "trade list"

text \<open>
  The body of the \<^verbatim>\<open>for sig in all_signals\<close> loop. \<open>approx_equity\<close> is computed once,
  before the loop; \<open>now\<close> is \<^verbatim>\<open>now_iso\<close>. Every \<^verbatim>\<open>continue\<close> returns the state as it is.
  The second test, \<^verbatim>\<open>elif action == "SELL" and sym in positions\<close>, is the \<open>case\<close> on the
  position looked up when the action is SELL: \<open>Some pos\<close> is the branch taken, with
  \<open>pos\<close> the value of \<^verbatim>\<open>positions[sym]\<close>.
\<close>

definition apply_signal ::
  "(string \<Rightarrow> real option) \<Rightarrow> int \<Rightarrow> real \<Rightarrow> apply_state \<Rightarrow> trading_signal \<Rightarrow> apply_state" where
  "apply_signal yf now approx_equity st sig =
     (let symb = ts_symbol sig;
          action = str_upper (ts_signal sig)
      in if action = ''BUY'' \<and> map_of (as_positions st) symb = None then
           (let price = get_latest_price yf symb
            in if price \<le> 0 then st
               else
                 let trade_budget = min (MAX_TRADE_FRACTION * approx_equity) (as_cash st);
                     q = py_int (py_floordiv trade_budget price)
                 in if q \<le> 0 then st
                    else
                      let v = of_int q * price
                      in st\<lparr>as_cash := as_cash st - v,
                            as_positions :=
                              AList.update symb \<lparr>qty = of_int q, avg_cost = price\<rparr>
                                (as_positions st),
                            as_new_trades := as_new_trades st @
                              [\<lparr>t_timestamp = Some now, t_symbol = symb, t_side = ''BUY'',
                                t_qty = of_int q, t_price = price, t_value = v\<rparr>]\<rparr>)
         else
           (case (if action = ''SELL'' then map_of (as_positions st) symb else None) of
              Some pos \<Rightarrow>
                (let price = get_latest_price yf symb
                 in if price \<le> 0 then st
                    else
                      let q = qty pos;
                          v = q * price
                      in st\<lparr>as_cash := as_cash st + v,
                            as_realized_pnl :=
                              as_realized_pnl st + (price - avg_cost pos) * q,
                            as_new_trades := as_new_trades st @
                              [\<lparr>t_timestamp = Some now, t_symbol = symb, t_side = ''SELL'',
                                t_qty = q, t_price = price, t_value = v\<rparr>],
                            as_positions := AList.delete symb (as_positions st)\<rparr>)
            | None \<Rightarrow> st))"

definition approx_equity_of :: "real \<Rightarrow> positions \<Rightarrow> real" where
  "approx_equity_of cash positions =
     cash + sum_list (map (\<lambda>(symb, pos). qty pos * avg_cost pos) positions)"

text \<open>The state of the loop after the signals \<open>sigs\<close>, starting from a replayed log.\<close>

definition run_signals ::
  "(string \<Rightarrow> real option) \<Rightarrow> int \<Rightarrow> trade list \<Rightarrow> trading_signal list \<Rightarrow> apply_state" where
  "run_signals yf now trades_df sigs =
     (case replay_trades trades_df of (cash, positions, realized_pnl) \<Rightarrow>
        foldl (apply_signal yf now (approx_equity_of cash positions))
          \<lparr>as_cash = cash, as_positions = positions, as_realized_pnl = realized_pnl,
           as_new_trades = []\<rparr> sigs)"

text \<open>
  The whole function. It takes the contents of the trade file and of the history file and
  returns both as written, with the snapshot. \<open>now_hist\<close> is the second reading of the
  clock, for the history row.
\<close>

definition apply_signals_and_update_portfolio ::
  "(string \<Rightarrow> real option) \<Rightarrow> int \<Rightarrow> int \<Rightarrow> trade list \<Rightarrow> hist_row list \<Rightarrow> trading_signal list
     \<Rightarrow> trade list \<times> hist_row list \<times> snapshot" where
  "apply_signals_and_update_portfolio yf now now_hist trades_file history_file all_signals =
     (let st = run_signals yf now trades_file all_signals;
          new_trades = as_new_trades st;
          trades_df = (if new_trades \<noteq> [] then trades_file @ new_trades else trades_file);
          snap = compute_snapshot yf trades_df;
          row = \<lparr>h_timestamp = now_hist, h_equity = snap_equity snap, h_cash = snap_cash snap,
                 h_realized_pnl = snap_realized_pnl snap,
                 h_unrealized_pnl = snap_unrealized_pnl snap\<rparr>
      in (trades_df, history_file @ [row], snap))"

section \<open>Auxiliary facts\<close>

lemmas str_case_defs =
  str_upper_def char_upper_def str_lower_def char_lower_def
  ascii_lowercase_def ascii_uppercase_def

lemma py_int_of_int: "py_int (of_int n) = n"
  by (simp add: py_int_def)

lemma py_int_floordiv: "py_int (py_floordiv a b) = \<lfloor>a / b\<rfloor>"
  by (simp add: py_floordiv_def py_int_of_int)

lemma update_absent: "map_of al k = None \<Longrightarrow> AList.update k v al = al @ [(k, v)]"
  by (induction al) (auto split: if_splits)

lemma run_signals_snoc:
  assumes "replay_trades trades_file = (cash0, positions0, realized0)"
  shows "run_signals yf now trades_file (pre @ [sig]) =
           apply_signal yf now (approx_equity_of cash0 positions0)
             (run_signals yf now trades_file pre) sig"
  by (simp add: run_signals_def assms)

lemma apply_signal_buy:
  assumes "str_upper (ts_signal sig) = ''BUY''"
    and "map_of (as_positions st) (ts_symbol sig) = None"
    and "price = get_latest_price yf (ts_symbol sig)" and "0 < price"
    and "q = \<lfloor>min (MAX_TRADE_FRACTION * approx_equity) (as_cash st) / price\<rfloor>"
  shows "apply_signal yf now approx_equity st sig =
           (if q \<le> 0 then st
            else st\<lparr>as_cash := as_cash st - of_int q * price,
                    as_positions := as_positions st @
                      [(ts_symbol sig, \<lparr>qty = of_int q, avg_cost = price\<rparr>)],
                    as_new_trades := as_new_trades st @
                      [\<lparr>t_timestamp = Some now, t_symbol = ts_symbol sig, t_side = ''BUY'',
                        t_qty = of_int q, t_price = price, t_value = of_int q * price\<rparr>]\<rparr>)"
  using assms
  by (simp add: apply_signal_def Let_def py_int_floordiv update_absent)

lemma apply_signal_noop:
  assumes "(str_upper (ts_signal sig) = ''BUY'' \<and> map_of (as_positions st) (ts_symbol sig) \<noteq> None)
         \<or> (str_upper (ts_signal sig) = ''SELL'' \<and> map_of (as_positions st) (ts_symbol sig) = None)
         \<or> str_upper (ts_signal sig) = ''HOLD''"
  shows "apply_signal yf now approx_equity st sig = st"
  using assms by (auto simp: apply_signal_def Let_def)


lemma delete_key_absent: "map_of (AList.delete k al) k = None"
  by (simp add: delete_conv')

lemma floor_div_mult_le:
  fixes b p :: real
  assumes "0 < p"
  shows "of_int \<lfloor>b / p\<rfloor> * p \<le> b"
proof -
  have "of_int \<lfloor>b / p\<rfloor> \<le> b / p"
    by (rule of_int_floor_le)
  then show ?thesis
    unfolding pos_le_divide_eq [OF assms] .
qed

lemma apply_signal_buy_changed:
  assumes buy: "str_upper (ts_signal sig) = ''BUY''"
    and changed: "apply_signal yf now approx_equity st sig \<noteq> st"
  shows "map_of (as_positions st) (ts_symbol sig) = None \<and>
         0 < get_latest_price yf (ts_symbol sig) \<and>
         0 < \<lfloor>min (MAX_TRADE_FRACTION * approx_equity) (as_cash st)
                / get_latest_price yf (ts_symbol sig)\<rfloor>"
proof -
  have 1: "map_of (as_positions st) (ts_symbol sig) = None"
  proof (rule ccontr)
    assume "map_of (as_positions st) (ts_symbol sig) \<noteq> None"
    with buy have "apply_signal yf now approx_equity st sig = st"
      by (intro apply_signal_noop) simp
    with changed show False by simp
  qed
  have 2: "0 < get_latest_price yf (ts_symbol sig)"
  proof (rule ccontr)
    assume "\<not> 0 < get_latest_price yf (ts_symbol sig)"
    then have "apply_signal yf now approx_equity st sig = st"
      using buy 1 by (simp add: apply_signal_def Let_def)
    with changed show False by simp
  qed
  have 3: "0 < \<lfloor>min (MAX_TRADE_FRACTION * approx_equity) (as_cash st)
                / get_latest_price yf (ts_symbol sig)\<rfloor>"
    using changed apply_signal_buy [OF buy 1 refl 2 refl, of now approx_equity]
    by (auto split: if_splits)
  from 1 2 3 show ?thesis by simp
qed

lemma apply_signal_keeps_invariant:
  assumes cash: "0 \<le> as_cash st"
    and held: "\<forall>(s, p)\<in>set (as_positions st). 0 \<le> qty p"
  shows "0 \<le> as_cash (apply_signal yf now approx_equity st sig) \<and>
         (\<forall>(s, p)\<in>set (as_positions (apply_signal yf now approx_equity st sig)). 0 \<le> qty p)"
proof (cases "apply_signal yf now approx_equity st sig = st")
  case True
  with cash held show ?thesis by simp
next
  case changed: False
  show ?thesis
  proof (cases "str_upper (ts_signal sig) = ''BUY''")
    case buy: True
    let ?price = "get_latest_price yf (ts_symbol sig)"
    let ?q = "\<lfloor>min (MAX_TRADE_FRACTION * approx_equity) (as_cash st) / ?price\<rfloor>"
    from apply_signal_buy_changed [OF buy changed]
    have absent: "map_of (as_positions st) (ts_symbol sig) = None"
      and price: "0 < ?price" and q: "0 < ?q"
      by simp_all
    have eq: "apply_signal yf now approx_equity st sig =
        st\<lparr>as_cash := as_cash st - of_int ?q * ?price,
           as_positions := as_positions st @
             [(ts_symbol sig, \<lparr>qty = of_int ?q, avg_cost = ?price\<rparr>)],
           as_new_trades := as_new_trades st @
             [\<lparr>t_timestamp = Some now, t_symbol = ts_symbol sig, t_side = ''BUY'',
               t_qty = of_int ?q, t_price = ?price, t_value = of_int ?q * ?price\<rparr>]\<rparr>"
      using apply_signal_buy [OF buy absent refl price refl, of now approx_equity] q
      by simp
    have "of_int ?q * ?price \<le> min (MAX_TRADE_FRACTION * approx_equity) (as_cash st)"
      by (rule floor_div_mult_le [OF price])
    then have "of_int ?q * ?price \<le> as_cash st"
      by simp
    with held q show ?thesis
      unfolding eq by auto
  next
    case notbuy: False
    from changed notbuy obtain pos where
      sell: "str_upper (ts_signal sig) = ''SELL''"
      and pos: "map_of (as_positions st) (ts_symbol sig) = Some pos"
      and price: "0 < get_latest_price yf (ts_symbol sig)"
      by (auto simp: apply_signal_def Let_def split: if_splits option.splits)
    from pos have "(ts_symbol sig, pos) \<in> set (as_positions st)"
      by (rule map_of_SomeD)
    with held have "0 \<le> qty pos"
      by auto
    with price have "0 \<le> qty pos * get_latest_price yf (ts_symbol sig)"
      by simp
    with cash held sell pos price show ?thesis
      by (auto simp: apply_signal_def Let_def AList.delete_eq)
  qed
qed

lemma foldl_apply_signal_keeps_invariant:
  assumes "0 \<le> as_cash st"
    and "\<forall>(s, p)\<in>set (as_positions st). 0 \<le> qty p"
  shows "0 \<le> as_cash (foldl (apply_signal yf now approx_equity) st sigs) \<and>
         (\<forall>(s, p)\<in>set (as_positions (foldl (apply_signal yf now approx_equity) st sigs)).
            0 \<le> qty p)"
  using assms
proof (induction sigs arbitrary: st)
  case Nil
  then show ?case by simp
next
  case (Cons sig sigs)
  from apply_signal_keeps_invariant [OF Cons.prems, of yf now approx_equity sig]
  show ?case
    using Cons.IH [of "apply_signal yf now approx_equity st sig"] by simp
qed

lemma snapshot_step_pair:
  "snapshot_step yf (u, e, mps) (s, p) =
     (u + mp_unrealized_pnl (market_row yf s p),
      e + mp_market_value (market_row yf s p),
      mps @ [market_row yf s p])"
  by (simp add: snapshot_step_def Let_def)

lemma foldl_snapshot_step:
  "foldl (snapshot_step yf) (u, e, mps) ps =
     (u + sum_list (map (\<lambda>(s, p). mp_unrealized_pnl (market_row yf s p)) ps),
      e + sum_list (map (\<lambda>(s, p). mp_market_value (market_row yf s p)) ps),
      mps @ map (\<lambda>(s, p). market_row yf s p) ps)"
proof (induction ps arbitrary: u e mps)
  case Nil
  then show ?case by simp
next
  case (Cons sp ps)
  obtain s p where sp: "sp = (s, p)"
    by (cases sp)
  show ?case
    by (simp add: sp snapshot_step_pair Cons.IH add.assoc)
qed

lemma compute_snapshot_fields:
  assumes "replay_trades trades_df = (cash, positions, realized_pnl)"
  shows "compute_snapshot yf trades_df =
     \<lparr>snap_cash = cash,
      snap_equity = cash + sum_list (map (\<lambda>(s, p). mp_market_value (market_row yf s p)) positions),
      snap_realized_pnl = realized_pnl,
      snap_unrealized_pnl =
        sum_list (map (\<lambda>(s, p). mp_unrealized_pnl (market_row yf s p)) positions),
      snap_positions = map (\<lambda>(s, p). market_row yf s p) positions\<rparr>"
  by (simp add: compute_snapshot_def assms foldl_snapshot_step)





lemma replay_trades_foldl:
  "replay_trades df = foldl replay_row (INITIAL_CAPITAL, [], 0) (sort_values df)"
  by (simp add: replay_trades_def sort_values_def)

lemma parsed_ts_inj_on:
  assumes "distinct (map t_timestamp xs)"
  shows "inj_on parsed_ts (set (filter (\<lambda>r. t_timestamp r \<noteq> None) xs))"
proof (rule inj_onI)
  fix a b
  assume a: "a \<in> set (filter (\<lambda>r. t_timestamp r \<noteq> None) xs)"
    and b: "b \<in> set (filter (\<lambda>r. t_timestamp r \<noteq> None) xs)"
    and eq: "parsed_ts a = parsed_ts b"
  from a b eq have "t_timestamp a = t_timestamp b"
    by (auto simp: parsed_ts_def split: option.splits)
  moreover from assms have "inj_on t_timestamp (set xs)"
    by (simp add: distinct_map)
  ultimately show "a = b"
    using a b by (auto dest: inj_onD)
qed

lemma unparseable_at_most_one:
  assumes "distinct (map t_timestamp xs)"
  shows "length (filter (\<lambda>r. t_timestamp r = None) xs) \<le> 1"
  using assms
proof (induction xs)
  case Nil
  then show ?case by simp
next
  case (Cons x xs)
  show ?case
  proof (cases "t_timestamp x")
    case None
    with Cons.prems have "\<forall>r\<in>set xs. t_timestamp r \<noteq> None"
      by (metis distinct.simps(2) image_eqI list.simps(9) list.set_map)
    then have "filter (\<lambda>r. t_timestamp r = None) xs = []"
      by (simp add: filter_empty_conv)
    with None show ?thesis by simp
  next
    case (Some t)
    with Cons show ?thesis by simp
  qed
qed

lemma short_lists_equal_by_mset:
  assumes "mset as = mset bs" and "length as \<le> 1"
  shows "as = bs"
proof (cases as)
  case Nil
  with assms show ?thesis by simp
next
  case (Cons a as')
  with assms(2) have as: "as = [a]"
    by simp
  with assms(1) have "mset bs = {#a#}"
    by simp
  then have "bs = [a]"
    by (simp add: mset_single_iff_right)
  with as show ?thesis by simp
qed

text \<open>
  When no two rows share a timestamp (an unparseable one counted as a timestamp of its
  own), there is one arrangement of the rows only that has the parsed rows in ascending
  order followed by the unparseable ones. The result of \<open>sort_values\<close> then does not
  depend on how the sorting algorithm treats equal keys.
\<close>

lemma sorted_arrangement_unique:
  assumes perm: "mset zs = mset xs"
    and dist: "distinct (map t_timestamp xs)"
    and split: "zs = filter (\<lambda>r. t_timestamp r \<noteq> None) zs @ filter (\<lambda>r. t_timestamp r = None) zs"
    and sorted: "sorted (map parsed_ts (filter (\<lambda>r. t_timestamp r \<noteq> None) zs))"
  shows "zs = sort_values xs"
proof -
  let ?P = "\<lambda>r. t_timestamp r \<noteq> None"
  let ?N = "\<lambda>r. t_timestamp r = None"
  from perm have mp: "mset (filter ?P xs) = mset (filter ?P zs)"
    and mn: "mset (filter ?N xs) = mset (filter ?N zs)"
    by simp_all
  have "sort_key parsed_ts (filter ?P xs) = filter ?P zs"
    by (rule sort_key_inj_key_eq [OF mp parsed_ts_inj_on [OF dist] sorted])
  moreover have "filter ?N xs = filter ?N zs"
    by (rule short_lists_equal_by_mset [OF mn unparseable_at_most_one [OF dist]])
  ultimately have "sort_values xs = filter ?P zs @ filter ?N zs"
    by (simp add: sort_values_def)
  with split show ?thesis by simp
qed

lemma sort_values_parts:
  "filter (\<lambda>r. t_timestamp r \<noteq> None) (sort_values ys)
     = sort_key parsed_ts (filter (\<lambda>r. t_timestamp r \<noteq> None) ys)"
  "filter (\<lambda>r. t_timestamp r = None) (sort_values ys) = filter (\<lambda>r. t_timestamp r = None) ys"
proof -
  let ?S = "sort_key parsed_ts (filter (\<lambda>r. t_timestamp r \<noteq> None) ys)"
  let ?N = "filter (\<lambda>r. t_timestamp r = None) ys"
  have "filter (\<lambda>r. t_timestamp r \<noteq> None) ?S = ?S"
    by (rule filter_True) simp
  moreover have "filter (\<lambda>r. t_timestamp r \<noteq> None) ?N = []"
    by (auto simp: filter_empty_conv)
  ultimately show "filter (\<lambda>r. t_timestamp r \<noteq> None) (sort_values ys) = ?S"
    unfolding sort_values_def filter_append by simp
  have "filter (\<lambda>r. t_timestamp r = None) ?S = []"
    by (auto simp: filter_empty_conv)
  moreover have "filter (\<lambda>r. t_timestamp r = None) ?N = ?N"
    by (rule filter_True) simp
  ultimately show "filter (\<lambda>r. t_timestamp r = None) (sort_values ys) = ?N"
    unfolding sort_values_def filter_append by simp
qed

lemma sort_values_split:
  "sort_values ys = filter (\<lambda>r. t_timestamp r \<noteq> None) (sort_values ys)
                      @ filter (\<lambda>r. t_timestamp r = None) (sort_values ys)"
  "sorted (map parsed_ts (filter (\<lambda>r. t_timestamp r \<noteq> None) (sort_values ys)))"
  unfolding sort_values_parts by (simp_all add: sort_values_def)

section \<open>The aggregator\<close>



section \<open>The signal generator\<close>

text \<open>
  C2. The decision is taken in a fixed order. With \<open>cnt\<close> the article count and \<open>fs\<close>
  the final score of the summary (absent keys read as \<open>0\<close>) and the thresholds taken from
  the arguments or, when absent, from the configuration: no articles gives HOLD with
  confidence low; otherwise \<open>fs \<ge> buy_thr\<close> gives BUY, with confidence high exactly when
  \<open>fs \<ge> buy_thr + 0.15\<close> and medium otherwise; otherwise \<open>fs \<le> sell_thr\<close> gives SELL,
  with confidence high exactly when \<open>fs \<le> sell_thr - 0.15\<close> and medium otherwise;
  otherwise HOLD with confidence medium. Both boundaries are inclusive.
\<close>

theorem generate_trading_signal_decision:
  assumes "buy_thr = get_or buy_thr_arg SENTIMENT_THRESHOLDS_buy"
    and "sell_thr = get_or sell_thr_arg SENTIMENT_THRESHOLDS_sell"
    and "fs = get_or (sd_final_score sm) 0"
    and "cnt = get_or (sd_article_count sm) 0"
    and "sg = generate_trading_signal symbol sm buy_thr_arg sell_thr_arg"
  shows "(cnt = 0 \<longrightarrow> ts_signal sg = ''HOLD'' \<and> ts_confidence sg = ''low'') \<and>
         (cnt \<noteq> 0 \<and> fs \<ge> buy_thr \<longrightarrow>
            ts_signal sg = ''BUY'' \<and>
            (ts_confidence sg = ''high'') = (fs \<ge> buy_thr + 15 / 100) \<and>
            (ts_confidence sg = ''medium'') = (\<not> fs \<ge> buy_thr + 15 / 100)) \<and>
         (cnt \<noteq> 0 \<and> \<not> fs \<ge> buy_thr \<and> fs \<le> sell_thr \<longrightarrow>
            ts_signal sg = ''SELL'' \<and>
            (ts_confidence sg = ''high'') = (fs \<le> sell_thr - 15 / 100) \<and>
            (ts_confidence sg = ''medium'') = (\<not> fs \<le> sell_thr - 15 / 100)) \<and>
         (cnt \<noteq> 0 \<and> \<not> fs \<ge> buy_thr \<and> \<not> fs \<le> sell_thr \<longrightarrow>
            ts_signal sg = ''HOLD'' \<and> ts_confidence sg = ''medium'')"
  using assms by (simp add: generate_trading_signal_def Let_def)

text \<open>
  The theorem at four summaries: the score on the buy boundary, a strongly negative score
  under caller-supplied thresholds, a score between the default thresholds, and no
  articles.
\<close>

theorem generate_trading_signal_decision_witness:
  "ts_signal (generate_trading_signal ''TSLA''
       \<lparr>sd_final_score = Some (2 / 100), sd_article_count = Some 5,
        sd_bullish_ratio = Some (3 / 5), sd_bearish_ratio = Some (1 / 5),
        sd_sentiment_view = Some ''mixed/neutral''\<rparr> None None) = ''BUY'' \<and>
   ts_confidence (generate_trading_signal ''TSLA''
       \<lparr>sd_final_score = Some (2 / 100), sd_article_count = Some 5,
        sd_bullish_ratio = Some (3 / 5), sd_bearish_ratio = Some (1 / 5),
        sd_sentiment_view = Some ''mixed/neutral''\<rparr> None None) = ''medium'' \<and>
   ts_signal (generate_trading_signal ''TSLA''
       \<lparr>sd_final_score = Some (- (2 / 10)), sd_article_count = Some 5,
        sd_bullish_ratio = Some (1 / 5), sd_bearish_ratio = Some (3 / 5),
        sd_sentiment_view = Some ''bearish''\<rparr> (Some (1 / 10)) (Some (- (5 / 100)))) = ''SELL'' \<and>
   ts_confidence (generate_trading_signal ''TSLA''
       \<lparr>sd_final_score = Some (- (2 / 10)), sd_article_count = Some 5,
        sd_bullish_ratio = Some (1 / 5), sd_bearish_ratio = Some (3 / 5),
        sd_sentiment_view = Some ''bearish''\<rparr> (Some (1 / 10)) (Some (- (5 / 100)))) = ''high'' \<and>
   ts_signal (generate_trading_signal ''TSLA''
       \<lparr>sd_final_score = Some 0, sd_article_count = Some 5,
        sd_bullish_ratio = Some (2 / 5), sd_bearish_ratio = Some (2 / 5),
        sd_sentiment_view = Some ''mixed/neutral''\<rparr> None None) = ''HOLD'' \<and>
   ts_confidence (generate_trading_signal ''TSLA''
       \<lparr>sd_final_score = Some 0, sd_article_count = Some 5,
        sd_bullish_ratio = Some (2 / 5), sd_bearish_ratio = Some (2 / 5),
        sd_sentiment_view = Some ''mixed/neutral''\<rparr> None None) = ''medium'' \<and>
   ts_signal (generate_trading_signal ''TSLA''
       \<lparr>sd_final_score = Some (9 / 10), sd_article_count = Some 0,
        sd_bullish_ratio = Some 0, sd_bearish_ratio = Some 0,
        sd_sentiment_view = Some ''mixed/neutral''\<rparr> None None) = ''HOLD'' \<and>
   ts_confidence (generate_trading_signal ''TSLA''
       \<lparr>sd_final_score = Some (9 / 10), sd_article_count = Some 0,
        sd_bullish_ratio = Some 0, sd_bearish_ratio = Some 0,
        sd_sentiment_view = Some ''mixed/neutral''\<rparr> None None) = ''low''"
  using
    generate_trading_signal_decision [OF refl refl refl refl refl,
       where buy_thr_arg = None and sell_thr_arg = None and symbol = "''TSLA''" and sm =
       "\<lparr>sd_final_score = Some (2 / 100), sd_article_count = Some 5,
        sd_bullish_ratio = Some (3 / 5), sd_bearish_ratio = Some (1 / 5),
        sd_sentiment_view = Some ''mixed/neutral''\<rparr>"]
    generate_trading_signal_decision [OF refl refl refl refl refl,
       where buy_thr_arg = "Some (1 / 10)" and sell_thr_arg = "Some (- (5 / 100))"
         and symbol = "''TSLA''" and sm =
       "\<lparr>sd_final_score = Some (- (2 / 10)), sd_article_count = Some 5,
        sd_bullish_ratio = Some (1 / 5), sd_bearish_ratio = Some (3 / 5),
        sd_sentiment_view = Some ''bearish''\<rparr>"]
    generate_trading_signal_decision [OF refl refl refl refl refl,
       where buy_thr_arg = None and sell_thr_arg = None and symbol = "''TSLA''" and sm =
       "\<lparr>sd_final_score = Some 0, sd_article_count = Some 5,
        sd_bullish_ratio = Some (2 / 5), sd_bearish_ratio = Some (2 / 5),
        sd_sentiment_view = Some ''mixed/neutral''\<rparr>"]
    generate_trading_signal_decision [OF refl refl refl refl refl,
       where buy_thr_arg = None and sell_thr_arg = None and symbol = "''TSLA''" and sm =
       "\<lparr>sd_final_score = Some (9 / 10), sd_article_count = Some 0,
        sd_bullish_ratio = Some 0, sd_bearish_ratio = Some 0,
        sd_sentiment_view = Some ''mixed/neutral''\<rparr>"]
  by (simp add: get_or_def SENTIMENT_THRESHOLDS_buy_def SENTIMENT_THRESHOLDS_sell_def)

text \<open>
  C9. The signal generator does not change the case of the symbol: a lower-case symbol
  comes back in lower case, which is not its upper-case form.
\<close>

theorem generate_trading_signal_symbol_not_upper:
  "ts_symbol (generate_trading_signal ''tsla''
       \<lparr>sd_final_score = Some 0, sd_article_count = Some 5,
        sd_bullish_ratio = Some (2 / 5), sd_bearish_ratio = Some (2 / 5),
        sd_sentiment_view = Some ''mixed/neutral''\<rparr> None None)
   \<noteq> str_upper ''tsla''"
  by (simp add: generate_trading_signal_def Let_def str_case_defs split: prod.splits)

text \<open>
  C9, as the code has it: the returned signal carries the symbol exactly as it was passed
  in.
\<close>

theorem generate_trading_signal_symbol_unchanged:
  "ts_symbol (generate_trading_signal symbol sm buy_thr_arg sell_thr_arg) = symbol"
  by (simp add: generate_trading_signal_def Let_def split: prod.splits)

section \<open>Applying signals to the ledger\<close>

text \<open>
  C1. Let \<open>st\<close> be the state of the signal loop after the signals \<open>pre\<close>, on a log
  that replays to \<open>(cash0, positions0, realized0)\<close>. A BUY signal for a symbol with no
  open position in \<open>st\<close> and a fetched price \<open>> 0\<close> gets the budget
  \<open>min (MAX_TRADE_FRACTION * approx_equity) cash\<close>, where \<open>approx_equity\<close> is the cash plus
  the cost basis of the open positions as replayed from the log (computed once, before
  the loop) and \<open>cash\<close> is the cash available in \<open>st\<close>. The quantity is the floor of
  budget / price. A quantity \<open>\<le> 0\<close> leaves the state as it is; otherwise the cash is
  debited, the position is opened and one BUY trade is appended. In particular, on an
  empty log (initial cash 100000, fraction 0.25) a BUY of XYZ at 50 buys 500, leaves 75000
  in cash and writes one BUY trade of value 25000.
\<close>

theorem buy_sizing:
  assumes replay: "replay_trades trades_file = (cash0, positions0, realized0)"
    and st: "st = run_signals yf now trades_file pre"
    and buy: "str_upper (ts_signal sig) = ''BUY''"
    and closed: "map_of (as_positions st) (ts_symbol sig) = None"
    and price: "price = get_latest_price yf (ts_symbol sig)" "0 < price"
    and ae: "approx_equity =
               cash0 + sum_list (map (\<lambda>(s, p). qty p * avg_cost p) positions0)"
    and budget: "trade_budget = min (MAX_TRADE_FRACTION * approx_equity) (as_cash st)"
    and q: "q = \<lfloor>trade_budget / price\<rfloor>"
  shows "run_signals yf now trades_file (pre @ [sig]) =
           (if q \<le> 0 then st
            else st\<lparr>as_cash := as_cash st - of_int q * price,
                    as_positions := as_positions st @
                      [(ts_symbol sig, \<lparr>qty = of_int q, avg_cost = price\<rparr>)],
                    as_new_trades := as_new_trades st @
                      [\<lparr>t_timestamp = Some now, t_symbol = ts_symbol sig, t_side = ''BUY'',
                        t_qty = of_int q, t_price = price, t_value = of_int q * price\<rparr>]\<rparr>)
         \<and> (INITIAL_CAPITAL = 100000 \<and> MAX_TRADE_FRACTION = 25 / 100 \<and>
            run_signals (\<lambda>s. if s = ''XYZ'' then Some 50 else None) now []
                [sig\<lparr>ts_symbol := ''XYZ'', ts_signal := ''BUY''\<rparr>] =
              \<lparr>as_cash = 75000,
               as_positions = [(''XYZ'', \<lparr>qty = 500, avg_cost = 50\<rparr>)],
               as_realized_pnl = 0,
               as_new_trades =
                 [\<lparr>t_timestamp = Some now, t_symbol = ''XYZ'', t_side = ''BUY'',
                   t_qty = 500, t_price = 50, t_value = 25000\<rparr>]\<rparr> \<and>
            fst (apply_signals_and_update_portfolio
                   (\<lambda>s. if s = ''XYZ'' then Some 50 else None) now now_hist [] history_file
                   [sig\<lparr>ts_symbol := ''XYZ'', ts_signal := ''BUY''\<rparr>]) =
              [\<lparr>t_timestamp = Some now, t_symbol = ''XYZ'', t_side = ''BUY'',
                t_qty = 500, t_price = 50, t_value = 25000\<rparr>])"
proof -
  have general: "run_signals yf now trades_file (pre @ [sig]) =
           (if q \<le> 0 then st
            else st\<lparr>as_cash := as_cash st - of_int q * price,
                    as_positions := as_positions st @
                      [(ts_symbol sig, \<lparr>qty = of_int q, avg_cost = price\<rparr>)],
                    as_new_trades := as_new_trades st @
                      [\<lparr>t_timestamp = Some now, t_symbol = ts_symbol sig, t_side = ''BUY'',
                        t_qty = of_int q, t_price = price, t_value = of_int q * price\<rparr>]\<rparr>)"
    unfolding run_signals_snoc [OF replay] st [symmetric]
    by (rule apply_signal_buy [OF buy closed price])
       (simp add: q budget ae approx_equity_of_def)
  have run: "run_signals (\<lambda>s. if s = ''XYZ'' then Some 50 else None) now []
                [sig\<lparr>ts_symbol := ''XYZ'', ts_signal := ''BUY''\<rparr>] =
              \<lparr>as_cash = 75000,
               as_positions = [(''XYZ'', \<lparr>qty = 500, avg_cost = 50\<rparr>)],
               as_realized_pnl = 0,
               as_new_trades =
                 [\<lparr>t_timestamp = Some now, t_symbol = ''XYZ'', t_side = ''BUY'',
                   t_qty = 500, t_price = 50, t_value = 25000\<rparr>]\<rparr>"
    by (simp add: run_signals_def replay_trades_def apply_signal_def approx_equity_of_def
        INITIAL_CAPITAL_def MAX_TRADE_FRACTION_def str_case_defs get_latest_price_def
        py_int_floordiv Let_def)
  have whole: "fst (apply_signals_and_update_portfolio
                   (\<lambda>s. if s = ''XYZ'' then Some 50 else None) now now_hist [] history_file
                   [sig\<lparr>ts_symbol := ''XYZ'', ts_signal := ''BUY''\<rparr>]) =
              [\<lparr>t_timestamp = Some now, t_symbol = ''XYZ'', t_side = ''BUY'',
                t_qty = 500, t_price = 50, t_value = 25000\<rparr>]"
    by (simp add: apply_signals_and_update_portfolio_def Let_def run)
  show ?thesis
    using general run whole by (simp add: INITIAL_CAPITAL_def MAX_TRADE_FRACTION_def)
qed

text \<open>
  The theorem on a log with one open position (100 ABC at 100, so 90000 in cash and an
  approximate equity of 100000): a BUY of XYZ at 40 has the budget 25000 and buys 625.
\<close>

theorem buy_sizing_witness:
  "run_signals (\<lambda>s. Some 40) 7
     [\<lparr>t_timestamp = Some 1, t_symbol = ''ABC'', t_side = ''BUY'', t_qty = 100,
       t_price = 100, t_value = 10000\<rparr>]
     ([] @ [\<lparr>ts_symbol = ''XYZ'', ts_signal = ''buy'', ts_confidence = ''high'',
             ts_reason = [], ts_final_score = 1 / 2, ts_sentiment_view = ''bullish'',
             ts_article_count = 3, ts_bullish_ratio = 1, ts_bearish_ratio = 0\<rparr>]) =
   \<lparr>as_cash = 65000,
    as_positions = [(''ABC'', \<lparr>qty = 100, avg_cost = 100\<rparr>),
                    (''XYZ'', \<lparr>qty = 625, avg_cost = 40\<rparr>)],
    as_realized_pnl = 0,
    as_new_trades =
      [\<lparr>t_timestamp = Some 7, t_symbol = ''XYZ'', t_side = ''BUY'', t_qty = 625,
        t_price = 40, t_value = 25000\<rparr>]\<rparr>"
proof -
  let ?log = "[\<lparr>t_timestamp = Some 1, t_symbol = ''ABC'', t_side = ''BUY'', t_qty = 100,
       t_price = 100, t_value = 10000\<rparr>]"
  let ?sig = "\<lparr>ts_symbol = ''XYZ'', ts_signal = ''buy'', ts_confidence = ''high'',
             ts_reason = [], ts_final_score = 1 / 2, ts_sentiment_view = ''bullish'',
             ts_article_count = 3, ts_bullish_ratio = 1, ts_bearish_ratio = 0\<rparr>"
  let ?st = "\<lparr>as_cash = 90000, as_positions = [(''ABC'', \<lparr>qty = 100, avg_cost = 100\<rparr>)],
             as_realized_pnl = 0, as_new_trades = []\<rparr>"
  have replay: "replay_trades ?log = (90000, [(''ABC'', \<lparr>qty = 100, avg_cost = 100\<rparr>)], 0)"
    by (simp add: replay_trades_def sort_values_def replay_row_def INITIAL_CAPITAL_def
        str_case_defs Let_def)
  have st: "?st = run_signals (\<lambda>s. Some 40) 7 ?log []"
    by (simp add: run_signals_def replay)
  have buy: "str_upper (ts_signal ?sig) = ''BUY''"
    by (simp add: str_case_defs)
  have closed: "map_of (as_positions ?st) (ts_symbol ?sig) = None"
    by simp
  have price: "(40::real) = get_latest_price (\<lambda>s. Some 40) (ts_symbol ?sig)" "(0::real) < 40"
    by (simp_all add: get_latest_price_def)
  have ae: "(100000::real) = 90000 + sum_list (map (\<lambda>(s, p). qty p * avg_cost p)
              [(''ABC'', \<lparr>qty = 100, avg_cost = 100\<rparr>)])"
    by simp
  have budget: "(25000::real) = min (MAX_TRADE_FRACTION * 100000) (as_cash ?st)"
    by (simp add: MAX_TRADE_FRACTION_def)
  have q: "(625::int) = \<lfloor>(25000::real) / 40\<rfloor>"
    by simp
  show ?thesis
    using buy_sizing [OF replay st buy closed price ae budget q, of 7]
    by simp
qed

text \<open>
  C3. A SELL of a symbol with an open position: in replay, the row's quantity times its
  price is added to the cash, (price - avg_cost) times the quantity to the realized P&L,
  and the position is removed; when a SELL signal is applied at a fetched price \<open>> 0\<close>,
  the same holds with the quantity of the open position, and one SELL trade is appended.
  A SELL of a symbol with no open position changes nothing, in replay and in the signal
  loop. With 500 XYZ held at 50 and a SELL at 60 the cash grows by 30000, the realized P&L
  by 5000, the position is gone and one SELL trade is appended.
\<close>

theorem sell_closes_position:
  "(str_upper (t_side row) = ''SELL'' \<and> map_of positions (t_symbol row) = Some pos \<longrightarrow>
      replay_row (cash, positions, realized_pnl) row =
        (cash + t_qty row * t_price row,
         AList.delete (t_symbol row) positions,
         realized_pnl + (t_price row - avg_cost pos) * t_qty row) \<and>
      map_of (AList.delete (t_symbol row) positions) (t_symbol row) = None) \<and>
   (str_upper (t_side row) = ''SELL'' \<and> map_of positions (t_symbol row) = None \<longrightarrow>
      replay_row (cash, positions, realized_pnl) row = (cash, positions, realized_pnl)) \<and>
   (str_upper (ts_signal sig) = ''SELL'' \<and>
    map_of (as_positions st) (ts_symbol sig) = Some held \<and>
    0 < get_latest_price yf (ts_symbol sig) \<longrightarrow>
      apply_signal yf now approx_equity st sig =
        \<lparr>as_cash = as_cash st + qty held * get_latest_price yf (ts_symbol sig),
         as_positions = AList.delete (ts_symbol sig) (as_positions st),
         as_realized_pnl = as_realized_pnl st
           + (get_latest_price yf (ts_symbol sig) - avg_cost held) * qty held,
         as_new_trades = as_new_trades st @
           [\<lparr>t_timestamp = Some now, t_symbol = ts_symbol sig, t_side = ''SELL'',
             t_qty = qty held, t_price = get_latest_price yf (ts_symbol sig),
             t_value = qty held * get_latest_price yf (ts_symbol sig)\<rparr>]\<rparr> \<and>
      map_of (AList.delete (ts_symbol sig) (as_positions st)) (ts_symbol sig) = None) \<and>
   (str_upper (ts_signal sig) = ''SELL'' \<and> map_of (as_positions st) (ts_symbol sig) = None \<longrightarrow>
      apply_signal yf now approx_equity st sig = st) \<and>
   apply_signal (\<lambda>s. if s = ''XYZ'' then Some 60 else None) now approx_equity
       \<lparr>as_cash = c0, as_positions = [(''XYZ'', \<lparr>qty = 500, avg_cost = 50\<rparr>)],
        as_realized_pnl = r0, as_new_trades = []\<rparr>
       (sig\<lparr>ts_symbol := ''XYZ'', ts_signal := ''SELL''\<rparr>) =
     \<lparr>as_cash = c0 + 30000, as_positions = [], as_realized_pnl = r0 + 5000,
      as_new_trades =
        [\<lparr>t_timestamp = Some now, t_symbol = ''XYZ'', t_side = ''SELL'', t_qty = 500,
          t_price = 60, t_value = 30000\<rparr>]\<rparr>"
proof (intro conjI impI)
  assume "str_upper (t_side row) = ''SELL'' \<and> map_of positions (t_symbol row) = Some pos"
  then show "replay_row (cash, positions, realized_pnl) row =
        (cash + t_qty row * t_price row,
         AList.delete (t_symbol row) positions,
         realized_pnl + (t_price row - avg_cost pos) * t_qty row)"
    by (simp add: replay_row_def Let_def)
next
  show "map_of (AList.delete (t_symbol row) positions) (t_symbol row) = None"
    by (rule delete_key_absent)
next
  assume "str_upper (t_side row) = ''SELL'' \<and> map_of positions (t_symbol row) = None"
  then show "replay_row (cash, positions, realized_pnl) row = (cash, positions, realized_pnl)"
    by (simp add: replay_row_def Let_def)
next
  assume "str_upper (ts_signal sig) = ''SELL'' \<and>
    map_of (as_positions st) (ts_symbol sig) = Some held \<and>
    0 < get_latest_price yf (ts_symbol sig)"
  then show "apply_signal yf now approx_equity st sig =
        \<lparr>as_cash = as_cash st + qty held * get_latest_price yf (ts_symbol sig),
         as_positions = AList.delete (ts_symbol sig) (as_positions st),
         as_realized_pnl = as_realized_pnl st
           + (get_latest_price yf (ts_symbol sig) - avg_cost held) * qty held,
         as_new_trades = as_new_trades st @
           [\<lparr>t_timestamp = Some now, t_symbol = ts_symbol sig, t_side = ''SELL'',
             t_qty = qty held, t_price = get_latest_price yf (ts_symbol sig),
             t_value = qty held * get_latest_price yf (ts_symbol sig)\<rparr>]\<rparr>"
    by (simp add: apply_signal_def Let_def)
next
  show "map_of (AList.delete (ts_symbol sig) (as_positions st)) (ts_symbol sig) = None"
    by (rule delete_key_absent)
next
  assume "str_upper (ts_signal sig) = ''SELL'' \<and> map_of (as_positions st) (ts_symbol sig) = None"
  then show "apply_signal yf now approx_equity st sig = st"
    by (simp add: apply_signal_def Let_def)
next
  show "apply_signal (\<lambda>s. if s = ''XYZ'' then Some 60 else None) now approx_equity
       \<lparr>as_cash = c0, as_positions = [(''XYZ'', \<lparr>qty = 500, avg_cost = 50\<rparr>)],
        as_realized_pnl = r0, as_new_trades = []\<rparr>
       (sig\<lparr>ts_symbol := ''XYZ'', ts_signal := ''SELL''\<rparr>) =
     \<lparr>as_cash = c0 + 30000, as_positions = [], as_realized_pnl = r0 + 5000,
      as_new_trades =
        [\<lparr>t_timestamp = Some now, t_symbol = ''XYZ'', t_side = ''SELL'', t_qty = 500,
          t_price = 60, t_value = 30000\<rparr>]\<rparr>"
    by (simp add: apply_signal_def Let_def str_case_defs get_latest_price_def)
qed

text \<open>
  The theorem at a SELL of 500 XYZ at 60, once with the position open (bought at 50) and
  once with no position.
\<close>

theorem sell_closes_position_witness:
  "replay_row (75000, [(''XYZ'', \<lparr>qty = 500, avg_cost = 50\<rparr>)], 0)
      \<lparr>t_timestamp = Some 2, t_symbol = ''XYZ'', t_side = ''sell'', t_qty = 500,
        t_price = 60, t_value = 30000\<rparr> = (105000, [], 5000) \<and>
   replay_row (100000, [], 0)
      \<lparr>t_timestamp = Some 2, t_symbol = ''XYZ'', t_side = ''sell'', t_qty = 500,
        t_price = 60, t_value = 30000\<rparr> = (100000, [], 0) \<and>
   apply_signal (\<lambda>s. Some 60) 9 100000
      \<lparr>as_cash = 75000, as_positions = [(''XYZ'', \<lparr>qty = 500, avg_cost = 50\<rparr>)],
       as_realized_pnl = 0, as_new_trades = []\<rparr>
      \<lparr>ts_symbol = ''XYZ'', ts_signal = ''SELL'', ts_confidence = ''high'',
       ts_reason = [], ts_final_score = - (1 / 2), ts_sentiment_view = ''bearish'',
       ts_article_count = 3, ts_bullish_ratio = 0, ts_bearish_ratio = 1\<rparr> =
     \<lparr>as_cash = 105000, as_positions = [], as_realized_pnl = 5000,
      as_new_trades =
        [\<lparr>t_timestamp = Some 9, t_symbol = ''XYZ'', t_side = ''SELL'', t_qty = 500,
          t_price = 60, t_value = 30000\<rparr>]\<rparr> \<and>
   apply_signal (\<lambda>s. Some 60) 9 100000
      \<lparr>as_cash = 100000, as_positions = [], as_realized_pnl = 0, as_new_trades = []\<rparr>
      \<lparr>ts_symbol = ''XYZ'', ts_signal = ''SELL'', ts_confidence = ''high'',
       ts_reason = [], ts_final_score = - (1 / 2), ts_sentiment_view = ''bearish'',
       ts_article_count = 3, ts_bullish_ratio = 0, ts_bearish_ratio = 1\<rparr> =
     \<lparr>as_cash = 100000, as_positions = [], as_realized_pnl = 0, as_new_trades = []\<rparr>"
  using
    sell_closes_position [where
      row = "\<lparr>t_timestamp = Some 2, t_symbol = ''XYZ'', t_side = ''sell'', t_qty = 500,
              t_price = 60, t_value = 30000\<rparr>"
      and positions = "[(''XYZ'', \<lparr>qty = 500, avg_cost = 50\<rparr>)]"
      and pos = "\<lparr>qty = 500, avg_cost = 50\<rparr>" and cash = 75000 and realized_pnl = 0
      and sig = "\<lparr>ts_symbol = ''XYZ'', ts_signal = ''SELL'', ts_confidence = ''high'',
              ts_reason = [], ts_final_score = - (1 / 2), ts_sentiment_view = ''bearish'',
              ts_article_count = 3, ts_bullish_ratio = 0, ts_bearish_ratio = 1\<rparr>"
      and st = "\<lparr>as_cash = 75000, as_positions = [(''XYZ'', \<lparr>qty = 500, avg_cost = 50\<rparr>)],
              as_realized_pnl = 0, as_new_trades = []\<rparr>"
      and held = "\<lparr>qty = 500, avg_cost = 50\<rparr>" and yf = "\<lambda>s. Some 60" and now = 9
      and approx_equity = 100000]
    sell_closes_position [where
      row = "\<lparr>t_timestamp = Some 2, t_symbol = ''XYZ'', t_side = ''sell'', t_qty = 500,
              t_price = 60, t_value = 30000\<rparr>"
      and positions = "[]" and cash = 100000 and realized_pnl = 0
      and sig = "\<lparr>ts_symbol = ''XYZ'', ts_signal = ''SELL'', ts_confidence = ''high'',
              ts_reason = [], ts_final_score = - (1 / 2), ts_sentiment_view = ''bearish'',
              ts_article_count = 3, ts_bullish_ratio = 0, ts_bearish_ratio = 1\<rparr>"
      and st = "\<lparr>as_cash = 100000, as_positions = [], as_realized_pnl = 0,
              as_new_trades = []\<rparr>"
      and yf = "\<lambda>s. Some 60" and now = 9 and approx_equity = 100000]
  by (simp add: str_case_defs get_latest_price_def)



text \<open>
  C10. The signal loop never spends more cash than there is. A BUY signal that changes
  the state was executed at a fetched price \<open>> 0\<close> for the quantity
  \<open>q = floor (budget / price) > 0\<close>; it appends one BUY trade of value \<open>q * price\<close>,
  debits exactly that value, the value is at most the budget
  \<open>min (MAX_TRADE_FRACTION * approx_equity) cash\<close> and so at most the cash, and the cash
  after the BUY is not negative. A SELL signal does not lower the cash when the open
  positions have non-negative quantities (every position the loop opens has a positive
  one, and a trade row is specified with a positive quantity). So from a non-negative cash
  and such positions the cash is non-negative after any list of signals.
\<close>

theorem buy_never_overspends:
  "(str_upper (ts_signal sig) = ''BUY'' \<and> apply_signal yf now approx_equity st sig \<noteq> st \<longrightarrow>
      (let st' = apply_signal yf now approx_equity st sig;
           price = get_latest_price yf (ts_symbol sig);
           trade_budget = min (MAX_TRADE_FRACTION * approx_equity) (as_cash st);
           q = \<lfloor>trade_budget / price\<rfloor>
       in 0 < price \<and> 0 < q \<and>
          as_new_trades st' = as_new_trades st @
            [\<lparr>t_timestamp = Some now, t_symbol = ts_symbol sig, t_side = ''BUY'',
              t_qty = of_int q, t_price = price, t_value = of_int q * price\<rparr>] \<and>
          as_cash st' = as_cash st - of_int q * price \<and>
          of_int q * price \<le> trade_budget \<and>
          of_int q * price \<le> as_cash st \<and>
          0 \<le> as_cash st')) \<and>
   (str_upper (ts_signal sig) = ''SELL'' \<and> (\<forall>(s, p)\<in>set (as_positions st). 0 \<le> qty p) \<longrightarrow>
      as_cash st \<le> as_cash (apply_signal yf now approx_equity st sig)) \<and>
   (0 \<le> as_cash st \<and> (\<forall>(s, p)\<in>set (as_positions st). 0 \<le> qty p) \<longrightarrow>
      0 \<le> as_cash (foldl (apply_signal yf now approx_equity) st sigs))"
proof (intro conjI impI)
  assume a: "str_upper (ts_signal sig) = ''BUY'' \<and> apply_signal yf now approx_equity st sig \<noteq> st"
  let ?price = "get_latest_price yf (ts_symbol sig)"
  let ?budget = "min (MAX_TRADE_FRACTION * approx_equity) (as_cash st)"
  let ?q = "\<lfloor>?budget / ?price\<rfloor>"
  from a have buy: "str_upper (ts_signal sig) = ''BUY''"
    and changed: "apply_signal yf now approx_equity st sig \<noteq> st"
    by simp_all
  from apply_signal_buy_changed [OF buy changed]
  have absent: "map_of (as_positions st) (ts_symbol sig) = None"
    and price: "0 < ?price" and q: "0 < ?q"
    by simp_all
  have eq: "apply_signal yf now approx_equity st sig =
      st\<lparr>as_cash := as_cash st - of_int ?q * ?price,
         as_positions := as_positions st @
           [(ts_symbol sig, \<lparr>qty = of_int ?q, avg_cost = ?price\<rparr>)],
         as_new_trades := as_new_trades st @
           [\<lparr>t_timestamp = Some now, t_symbol = ts_symbol sig, t_side = ''BUY'',
             t_qty = of_int ?q, t_price = ?price, t_value = of_int ?q * ?price\<rparr>]\<rparr>"
    using apply_signal_buy [OF buy absent refl price refl, of now approx_equity] q
    by simp
  have le: "of_int ?q * ?price \<le> ?budget"
    by (rule floor_div_mult_le [OF price])
  then have le_cash: "of_int ?q * ?price \<le> as_cash st"
    by simp
  show "let st' = apply_signal yf now approx_equity st sig;
           price = get_latest_price yf (ts_symbol sig);
           trade_budget = min (MAX_TRADE_FRACTION * approx_equity) (as_cash st);
           q = \<lfloor>trade_budget / price\<rfloor>
       in 0 < price \<and> 0 < q \<and>
          as_new_trades st' = as_new_trades st @
            [\<lparr>t_timestamp = Some now, t_symbol = ts_symbol sig, t_side = ''BUY'',
              t_qty = of_int q, t_price = price, t_value = of_int q * price\<rparr>] \<and>
          as_cash st' = as_cash st - of_int q * price \<and>
          of_int q * price \<le> trade_budget \<and>
          of_int q * price \<le> as_cash st \<and>
          0 \<le> as_cash st'"
    unfolding Let_def eq using price q le le_cash by simp
next
  assume a: "str_upper (ts_signal sig) = ''SELL'' \<and>
             (\<forall>(s, p)\<in>set (as_positions st). 0 \<le> qty p)"
  show "as_cash st \<le> as_cash (apply_signal yf now approx_equity st sig)"
  proof (cases "map_of (as_positions st) (ts_symbol sig)")
    case None
    with a show ?thesis by (simp add: apply_signal_def Let_def)
  next
    case (Some pos)
    then have "(ts_symbol sig, pos) \<in> set (as_positions st)"
      by (rule map_of_SomeD)
    with a have "0 \<le> qty pos"
      by auto
    with a Some show ?thesis
      by (simp add: apply_signal_def Let_def)
  qed
next
  assume "0 \<le> as_cash st \<and> (\<forall>(s, p)\<in>set (as_positions st). 0 \<le> qty p)"
  then show "0 \<le> as_cash (foldl (apply_signal yf now approx_equity) st sigs)"
    using foldl_apply_signal_keeps_invariant [of st yf now approx_equity sigs] by simp
qed

text \<open>
  The theorem with 90000 in cash and 100 ABC held at 100, at a price of 40: the BUY of
  XYZ is executed for 625 shares and debits 25000; the SELL of ABC does not lower the
  cash; after both the cash is not negative.
\<close>

theorem buy_never_overspends_witness:
  "apply_signal (\<lambda>s. Some 40) 7 100000
      \<lparr>as_cash = 90000, as_positions = [(''ABC'', \<lparr>qty = 100, avg_cost = 100\<rparr>)],
       as_realized_pnl = 0, as_new_trades = []\<rparr>
      \<lparr>ts_symbol = ''XYZ'', ts_signal = ''BUY'', ts_confidence = ''high'',
       ts_reason = [], ts_final_score = 1 / 2, ts_sentiment_view = ''bullish'',
       ts_article_count = 3, ts_bullish_ratio = 1, ts_bearish_ratio = 0\<rparr>
    \<noteq> \<lparr>as_cash = 90000, as_positions = [(''ABC'', \<lparr>qty = 100, avg_cost = 100\<rparr>)],
       as_realized_pnl = 0, as_new_trades = []\<rparr> \<and>
   as_cash (apply_signal (\<lambda>s. Some 40) 7 100000
      \<lparr>as_cash = 90000, as_positions = [(''ABC'', \<lparr>qty = 100, avg_cost = 100\<rparr>)],
       as_realized_pnl = 0, as_new_trades = []\<rparr>
      \<lparr>ts_symbol = ''XYZ'', ts_signal = ''BUY'', ts_confidence = ''high'',
       ts_reason = [], ts_final_score = 1 / 2, ts_sentiment_view = ''bullish'',
       ts_article_count = 3, ts_bullish_ratio = 1, ts_bearish_ratio = 0\<rparr>) = 90000 - 625 * 40 \<and>
   (90000::real) \<le> as_cash (apply_signal (\<lambda>s. Some 40) 7 100000
      \<lparr>as_cash = 90000, as_positions = [(''ABC'', \<lparr>qty = 100, avg_cost = 100\<rparr>)],
       as_realized_pnl = 0, as_new_trades = []\<rparr>
      \<lparr>ts_symbol = ''ABC'', ts_signal = ''SELL'', ts_confidence = ''high'',
       ts_reason = [], ts_final_score = - (1 / 2), ts_sentiment_view = ''bearish'',
       ts_article_count = 3, ts_bullish_ratio = 0, ts_bearish_ratio = 1\<rparr>) \<and>
   0 \<le> as_cash (foldl (apply_signal (\<lambda>s. Some 40) 7 100000)
      \<lparr>as_cash = 90000, as_positions = [(''ABC'', \<lparr>qty = 100, avg_cost = 100\<rparr>)],
       as_realized_pnl = 0, as_new_trades = []\<rparr>
      [\<lparr>ts_symbol = ''XYZ'', ts_signal = ''BUY'', ts_confidence = ''high'',
        ts_reason = [], ts_final_score = 1 / 2, ts_sentiment_view = ''bullish'',
        ts_article_count = 3, ts_bullish_ratio = 1, ts_bearish_ratio = 0\<rparr>,
       \<lparr>ts_symbol = ''ABC'', ts_signal = ''SELL'', ts_confidence = ''high'',
        ts_reason = [], ts_final_score = - (1 / 2), ts_sentiment_view = ''bearish'',
        ts_article_count = 3, ts_bullish_ratio = 0, ts_bearish_ratio = 1\<rparr>])"
proof -
  let ?st = "\<lparr>as_cash = 90000, as_positions = [(''ABC'', \<lparr>qty = 100, avg_cost = 100\<rparr>)],
       as_realized_pnl = 0, as_new_trades = []\<rparr>"
  let ?buy = "\<lparr>ts_symbol = ''XYZ'', ts_signal = ''BUY'', ts_confidence = ''high'',
       ts_reason = [], ts_final_score = 1 / 2, ts_sentiment_view = ''bullish'',
       ts_article_count = 3, ts_bullish_ratio = 1, ts_bearish_ratio = 0\<rparr>"
  let ?sell = "\<lparr>ts_symbol = ''ABC'', ts_signal = ''SELL'', ts_confidence = ''high'',
       ts_reason = [], ts_final_score = - (1 / 2), ts_sentiment_view = ''bearish'',
       ts_article_count = 3, ts_bullish_ratio = 0, ts_bearish_ratio = 1\<rparr>"
  have changed: "apply_signal (\<lambda>s. Some 40) 7 100000 ?st ?buy \<noteq> ?st"
    by (simp add: apply_signal_def Let_def str_case_defs get_latest_price_def
        MAX_TRADE_FRACTION_def py_int_floordiv)
  have q: "\<lfloor>min (MAX_TRADE_FRACTION * 100000) (90000::real) / 40\<rfloor> = 625"
    by (simp add: MAX_TRADE_FRACTION_def)
  show ?thesis
    using changed q
      buy_never_overspends [where sig = ?buy and st = ?st and yf = "\<lambda>s. Some 40"
        and now = 7 and approx_equity = 100000 and sigs = "[?buy, ?sell]"]
      buy_never_overspends [where sig = ?sell and st = ?st and yf = "\<lambda>s. Some 40"
        and now = 7 and approx_equity = 100000 and sigs = "[?buy, ?sell]"]
    by (simp add: str_case_defs get_latest_price_def Let_def)
qed

section \<open>The snapshot\<close>

text \<open>
  C6. The snapshot has one row per open position, in the order of the positions. A row
  whose price lookup failed (no price) or gave a price \<open>\<le> 0\<close> has the position's
  average cost as last price and an unrealized P&L of exactly 0. Every row's market value
  is quantity times last price, and the equity is the cash plus the sum of the rows'
  market values.
\<close>

theorem snapshot_fallback_and_equity:
  assumes replay: "replay_trades trades_df = (cash, positions, realized_pnl)"
    and snap: "snap = compute_snapshot yf trades_df"
  shows "snap_cash snap = cash \<and>
         length (snap_positions snap) = length positions \<and>
         (\<forall>i < length positions.
            let symb = fst (positions ! i);
                pos = snd (positions ! i);
                r = snap_positions snap ! i
            in mp_symbol r = symb \<and> mp_qty r = qty pos \<and> mp_avg_cost r = avg_cost pos \<and>
               mp_market_value r = mp_qty r * mp_last_price r \<and>
               mp_unrealized_pnl r = mp_qty r * (mp_last_price r - mp_avg_cost r) \<and>
               (yf symb = None \<or> get_latest_price yf symb \<le> 0 \<longrightarrow>
                  mp_last_price r = avg_cost pos \<and> mp_unrealized_pnl r = 0)) \<and>
         snap_equity snap =
           snap_cash snap + sum_list (map mp_market_value (snap_positions snap)) \<and>
         snap_unrealized_pnl snap = sum_list (map mp_unrealized_pnl (snap_positions snap))"
proof -
  note f = compute_snapshot_fields [OF replay, of yf]
  have rows: "snap_positions snap = map (\<lambda>(s, p). market_row yf s p) positions"
    by (simp add: snap f)
  have row: "let symb = fst (positions ! i);
                pos = snd (positions ! i);
                r = snap_positions snap ! i
            in mp_symbol r = symb \<and> mp_qty r = qty pos \<and> mp_avg_cost r = avg_cost pos \<and>
               mp_market_value r = mp_qty r * mp_last_price r \<and>
               mp_unrealized_pnl r = mp_qty r * (mp_last_price r - mp_avg_cost r) \<and>
               (yf symb = None \<or> get_latest_price yf symb \<le> 0 \<longrightarrow>
                  mp_last_price r = avg_cost pos \<and> mp_unrealized_pnl r = 0)"
    if "i < length positions" for i
    using that
    by (auto simp: rows Let_def market_row_def get_latest_price_def case_prod_unfold)
  have eq: "snap_equity snap =
           snap_cash snap + sum_list (map mp_market_value (snap_positions snap))"
    by (simp add: snap f comp_def case_prod_unfold)
  have un: "snap_unrealized_pnl snap = sum_list (map mp_unrealized_pnl (snap_positions snap))"
    by (simp add: snap f comp_def case_prod_unfold)
  show ?thesis
    using row eq un by (simp add: snap f)
qed

text \<open>
  The theorem with 500 XYZ held at 50 and a price source that returns 0: the last price
  is 50, the unrealized P&L 0 and the equity 75000 + 25000.
\<close>

theorem snapshot_fallback_and_equity_witness:
  "compute_snapshot (\<lambda>s. Some 0)
     [\<lparr>t_timestamp = Some 1, t_symbol = ''XYZ'', t_side = ''BUY'', t_qty = 500,
       t_price = 50, t_value = 25000\<rparr>] =
   \<lparr>snap_cash = 75000, snap_equity = 100000, snap_realized_pnl = 0,
    snap_unrealized_pnl = 0,
    snap_positions =
      [\<lparr>mp_symbol = ''XYZ'', mp_qty = 500, mp_avg_cost = 50, mp_last_price = 50,
        mp_market_value = 25000, mp_unrealized_pnl = 0\<rparr>]\<rparr>"
proof -
  let ?log = "[\<lparr>t_timestamp = Some 1, t_symbol = ''XYZ'', t_side = ''BUY'', t_qty = 500,
       t_price = 50, t_value = 25000\<rparr>]"
  have replay: "replay_trades ?log = (75000, [(''XYZ'', \<lparr>qty = 500, avg_cost = 50\<rparr>)], 0)"
    by (simp add: replay_trades_def sort_values_def replay_row_def INITIAL_CAPITAL_def
        str_case_defs Let_def)
  have "snap_realized_pnl (compute_snapshot (\<lambda>s. Some 0) ?log) = 0"
    by (simp add: compute_snapshot_fields [OF replay])
  moreover obtain r where r: "snap_positions (compute_snapshot (\<lambda>s. Some 0) ?log) = [r]"
    using snapshot_fallback_and_equity [OF replay refl, of "\<lambda>s. Some 0"]
    by (auto simp: length_Suc_conv)
  ultimately show ?thesis
    using snapshot_fallback_and_equity [OF replay refl, of "\<lambda>s. Some 0"]
    by (cases "compute_snapshot (\<lambda>s. Some 0) ?log"; cases r)
       (simp add: get_latest_price_def)
qed

section \<open>Replay order\<close>



text \<open>
  C4. Replay is not independent of the input order when timestamps tie: a BUY and a SELL
  of the same symbol with the same timestamp replay to different ledgers in their two
  orders.
\<close>

theorem replay_depends_on_order_of_ties:
  "replay_trades
     [\<lparr>t_timestamp = Some 1, t_symbol = ''XYZ'', t_side = ''BUY'', t_qty = 10,
       t_price = 5, t_value = 50\<rparr>,
      \<lparr>t_timestamp = Some 1, t_symbol = ''XYZ'', t_side = ''SELL'', t_qty = 10,
       t_price = 6, t_value = 60\<rparr>] = (100010, [], 10) \<and>
   replay_trades
     [\<lparr>t_timestamp = Some 1, t_symbol = ''XYZ'', t_side = ''SELL'', t_qty = 10,
       t_price = 6, t_value = 60\<rparr>,
      \<lparr>t_timestamp = Some 1, t_symbol = ''XYZ'', t_side = ''BUY'', t_qty = 10,
       t_price = 5, t_value = 50\<rparr>] = (99950, [(''XYZ'', \<lparr>qty = 10, avg_cost = 5\<rparr>)], 0) \<and>
   replay_trades
     [\<lparr>t_timestamp = Some 1, t_symbol = ''XYZ'', t_side = ''BUY'', t_qty = 10,
       t_price = 5, t_value = 50\<rparr>,
      \<lparr>t_timestamp = Some 1, t_symbol = ''XYZ'', t_side = ''SELL'', t_qty = 10,
       t_price = 6, t_value = 60\<rparr>] \<noteq>
   replay_trades
     [\<lparr>t_timestamp = Some 1, t_symbol = ''XYZ'', t_side = ''SELL'', t_qty = 10,
       t_price = 6, t_value = 60\<rparr>,
      \<lparr>t_timestamp = Some 1, t_symbol = ''XYZ'', t_side = ''BUY'', t_qty = 10,
       t_price = 5, t_value = 50\<rparr>]"
  by (simp add: replay_trades_def sort_values_def parsed_ts_def replay_row_def
      INITIAL_CAPITAL_def str_case_defs Let_def)

text \<open>
  C4, as the code has it: the rows are replayed with the parsed timestamps in ascending
  order and the unparseable ones after them; when the timestamps of the rows are pairwise
  distinct, every reordering of the trade list is sorted to the same list and replays to
  the same cash, positions and realized P&L.
\<close>

theorem replay_independent_of_input_order:
  assumes "mset ys = mset xs"
    and "distinct (map t_timestamp xs)"
  shows "sorted (map parsed_ts (filter (\<lambda>r. t_timestamp r \<noteq> None) (sort_values xs))) \<and>
         sort_values xs = filter (\<lambda>r. t_timestamp r \<noteq> None) (sort_values xs)
                            @ filter (\<lambda>r. t_timestamp r = None) (sort_values xs) \<and>
         sort_values ys = sort_values xs \<and>
         replay_trades ys = replay_trades xs"
proof -
  have "mset (sort_values ys) = mset xs"
    using assms(1) by (simp add: sort_values_def union_commute)
  from sorted_arrangement_unique [OF this assms(2) sort_values_split]
  have same: "sort_values ys = sort_values xs" .
  then have "replay_trades ys = replay_trades xs"
    by (simp add: replay_trades_foldl)
  with same sort_values_split [of xs] show ?thesis
    by blast
qed

text \<open>
  The theorem on three rows (two parsed timestamps and one unparseable) in two orders.
\<close>

theorem replay_independent_of_input_order_witness:
  "replay_trades
     [\<lparr>t_timestamp = None, t_symbol = ''ABC'', t_side = ''BUY'', t_qty = 10,
       t_price = 20, t_value = 200\<rparr>,
      \<lparr>t_timestamp = Some 5, t_symbol = ''XYZ'', t_side = ''SELL'', t_qty = 500,
       t_price = 60, t_value = 30000\<rparr>,
      \<lparr>t_timestamp = Some 3, t_symbol = ''XYZ'', t_side = ''BUY'', t_qty = 500,
       t_price = 50, t_value = 25000\<rparr>] =
   replay_trades
     [\<lparr>t_timestamp = Some 3, t_symbol = ''XYZ'', t_side = ''BUY'', t_qty = 500,
       t_price = 50, t_value = 25000\<rparr>,
      \<lparr>t_timestamp = Some 5, t_symbol = ''XYZ'', t_side = ''SELL'', t_qty = 500,
       t_price = 60, t_value = 30000\<rparr>,
      \<lparr>t_timestamp = None, t_symbol = ''ABC'', t_side = ''BUY'', t_qty = 10,
       t_price = 20, t_value = 200\<rparr>] \<and>
   replay_trades
     [\<lparr>t_timestamp = Some 3, t_symbol = ''XYZ'', t_side = ''BUY'', t_qty = 500,
       t_price = 50, t_value = 25000\<rparr>,
      \<lparr>t_timestamp = Some 5, t_symbol = ''XYZ'', t_side = ''SELL'', t_qty = 500,
       t_price = 60, t_value = 30000\<rparr>,
      \<lparr>t_timestamp = None, t_symbol = ''ABC'', t_side = ''BUY'', t_qty = 10,
       t_price = 20, t_value = 200\<rparr>] =
     (104800, [(''ABC'', \<lparr>qty = 10, avg_cost = 20\<rparr>)], 5000)"
proof -
  let ?r1 = "\<lparr>t_timestamp = Some 3, t_symbol = ''XYZ'', t_side = ''BUY'', t_qty = 500,
       t_price = 50, t_value = 25000\<rparr>"
  let ?r2 = "\<lparr>t_timestamp = Some 5, t_symbol = ''XYZ'', t_side = ''SELL'', t_qty = 500,
       t_price = 60, t_value = 30000\<rparr>"
  let ?r3 = "\<lparr>t_timestamp = None, t_symbol = ''ABC'', t_side = ''BUY'', t_qty = 10,
       t_price = 20, t_value = 200\<rparr>"
  have perm: "mset [?r3, ?r2, ?r1] = mset [?r1, ?r2, ?r3]"
    by simp
  have dist: "distinct (map t_timestamp [?r1, ?r2, ?r3])"
    by simp
  have val: "replay_trades [?r1, ?r2, ?r3] =
     (104800, [(''ABC'', \<lparr>qty = 10, avg_cost = 20\<rparr>)], 5000)"
    by (simp add: replay_trades_def sort_values_def parsed_ts_def replay_row_def
        INITIAL_CAPITAL_def str_case_defs Let_def)
  show ?thesis
    using replay_independent_of_input_order [OF perm dist] val by simp
qed

end
